theory Spec2Isabelle
  imports Main
begin

section \<open>The command-line wrapper of glsl-types (dist/index.js)\<close>

text \<open>
  The wrapper is a Node script. It installs eight functions on the global object, declares
  four command-line options, parses the command line and then either watches the input
  directory or processes one file. The core engine (\<^verbatim>\<open>./pkg/glsl_types.cjs\<close>) is called
  through \<^verbatim>\<open>start_cli\<close>.

  The model is a function from what the script receives (the environment of Node library
  functions, the options given on the command line, the filesystem events delivered to the
  watcher) to the sequence of actions it performs, in order. The model starts after
  \<^verbatim>\<open>program.parse()\<close> has returned: an exit of commander's own (an unknown
  option, a missing option argument) is not part of it. Library calls are taken to return,
  except \<^verbatim>\<open>fs.watch\<close>, which may throw; the script catches no exception.
\<close>

subsection \<open>The Node library functions the script calls\<close>

text \<open>
  \<^verbatim>\<open>path.resolve\<close>, \<^verbatim>\<open>path.extname\<close>, \<^verbatim>\<open>fs.existsSync\<close>,
  \<^verbatim>\<open>fs.readFileSync\<close> and \<^verbatim>\<open>chalk[color]\<close> are not code of the script: they are
  parameters of the model. \<open>fs_readFileSync file encoding\<close> is \<open>None\<close> where the read throws.
\<close>

record env =
  path_resolve :: "string list \<Rightarrow> string"
  path_extname :: "string \<Rightarrow> string"
  fs_existsSync :: "string \<Rightarrow> bool"
  fs_readFileSync :: "string \<Rightarrow> string \<Rightarrow> string option"
  chalk :: "string \<Rightarrow> string \<Rightarrow> string"

subsection \<open>Actions and the global object\<close>

text \<open>
  The actions the script and the functions it installs perform through Node.
  \<open>MkdirSync dir\<close> is \<^verbatim>\<open>fs.mkdirSync(dir, { recursive: true })\<close>, \<open>Fs_watch dir\<close> is
  the call \<^verbatim>\<open>fs.watch(dir, { recursive: true }, callback)\<close>. \<open>Uncaught_exception\<close> is an
  exception that reaches the top level of the script: Node writes it to stderr and ends the
  process with exit code 1.
\<close>

datatype effect =
    Console_log string
  | Console_error string
  | Stdout_write string
  | MkdirSync string
  | WriteFileSync string string
  | Fs_watch string
  | Process_exit nat
  | Uncaught_exception

text \<open>
  The eight properties the script assigns on \<^verbatim>\<open>global\<close> (lines 9 to 26). A property
  that has not been assigned is \<open>None\<close>.
\<close>

record globals =
  logln :: "(string \<Rightarrow> effect) option"
  log :: "(string \<Rightarrow> effect) option"
  log_with_color :: "(string \<Rightarrow> string \<Rightarrow> effect) option"
  read_file :: "(string \<Rightarrow> string option) option"
  canonicalize :: "(string \<Rightarrow> string) option"
  file_exists :: "(string \<Rightarrow> bool) option"
  create_dir_all :: "(string \<Rightarrow> effect) option"
  write_file :: "(string \<Rightarrow> string \<Rightarrow> effect) option"

definition empty_globals :: globals where
  "empty_globals =
     \<lparr>logln = None, log = None, log_with_color = None, read_file = None,
      canonicalize = None, file_exists = None, create_dir_all = None, write_file = None\<rparr>"

definition install_globals :: "env \<Rightarrow> globals \<Rightarrow> globals" where
  "install_globals e g =
     g\<lparr>logln := Some (\<lambda>message. Console_log message),
       log := Some (\<lambda>message. Stdout_write message),
       log_with_color := Some (\<lambda>message color. Stdout_write (chalk e color message)),
       read_file := Some (\<lambda>file. fs_readFileSync e file ''utf8''),
       canonicalize := Some (\<lambda>file. path_resolve e [file]),
       file_exists := Some (\<lambda>file. fs_existsSync e file),
       create_dir_all := Some (\<lambda>dir. MkdirSync dir),
       write_file := Some (\<lambda>file content. WriteFileSync file content)\<rparr>"

text \<open>
  What the script does, in order: an action of its own, or a call
  \<^verbatim>\<open>glslTypes.start_cli(file, input, output)\<close> of the core. The call carries the global
  object as it is when the call is made, since the core reads its capabilities from there.
\<close>

datatype event =
    Effect effect
  | Start_cli globals string string string

subsection \<open>Options\<close>

text \<open>
  What the command line gives: the argument of \<^verbatim>\<open>--input\<close>, \<^verbatim>\<open>--output\<close> and
  \<^verbatim>\<open>--file\<close> (\<open>None\<close> when the option is absent) and whether \<^verbatim>\<open>--watch\<close> is present.
\<close>

record cli_args =
  arg_input :: "string option"
  arg_output :: "string option"
  arg_file :: "string option"
  arg_watch :: bool

text \<open>The object \<^verbatim>\<open>program.opts()\<close> returns, with its properties \<^verbatim>\<open>input\<close>, \<^verbatim>\<open>output\<close>,
  \<^verbatim>\<open>file\<close> and \<^verbatim>\<open>watch\<close>; \<open>opt_file\<close> is \<open>None\<close> for \<^verbatim>\<open>undefined\<close>.\<close>

record options =
  opt_input :: string
  opt_output :: string
  opt_file :: "string option"
  opt_watch :: bool

text \<open>
  The four \<^verbatim>\<open>program.option\<close> declarations (lines 28 to 31): the last argument of
  \<^verbatim>\<open>--input\<close>, \<^verbatim>\<open>--output\<close> and \<^verbatim>\<open>--watch\<close> is the value of the option when the
  command line does not give it; \<^verbatim>\<open>--file\<close> has none.
\<close>

definition program_opts :: "cli_args \<Rightarrow> options" where
  "program_opts a =
     \<lparr>opt_input = (case arg_input a of None \<Rightarrow> ''./shaders'' | Some v \<Rightarrow> v),
      opt_output = (case arg_output a of None \<Rightarrow> ''./output'' | Some v \<Rightarrow> v),
      opt_file = arg_file a,
      opt_watch = arg_watch a\<rparr>"

definition SHADER_EXTENSIONS :: "string list" where
  "SHADER_EXTENSIONS = [''.vert'', ''.frag'', ''.vs'', ''.fs'', ''.glsl'']"

subsection \<open>The script\<close>

text \<open>
  JavaScript's \<^verbatim>\<open>!x\<close> on a value that is a string or missing: true for
  \<^verbatim>\<open>null\<close>, \<^verbatim>\<open>undefined\<close> and the empty string.
\<close>

fun js_not :: "string option \<Rightarrow> bool" where
  "js_not None = True"
| "js_not (Some s) = (s = [])"

text \<open>
  The callback given to \<^verbatim>\<open>fs.watch\<close> (lines 37 to 44), called once for each event with
  the event type and the file name, which Node may leave out (\<open>None\<close>).
\<close>

definition watch_callback :: "env \<Rightarrow> globals \<Rightarrow> options \<Rightarrow> string \<Rightarrow> string option \<Rightarrow> event list" where
  "watch_callback e g opts eventType filename =
     (if js_not filename then []
      else
        case filename of
          None \<Rightarrow> []
        | Some name \<Rightarrow>
            let filename' = path_resolve e [opt_input opts, name] in
            if path_extname e filename' \<in> set SHADER_EXTENSIONS
            then [Start_cli g filename' (opt_input opts) (opt_output opts)]
            else [])"

text \<open>The \<^verbatim>\<open>else\<close> branch (lines 46 to 55); \<^verbatim>\<open>process.exit\<close> does not return.\<close>

definition single_file :: "env \<Rightarrow> globals \<Rightarrow> options \<Rightarrow> event list" where
  "single_file e g opts =
     (if js_not (opt_file opts)
      then [Effect (Console_error ''Please provide a file to process''), Effect (Process_exit 1)]
      else
        case opt_file opts of
          None \<Rightarrow> []
        | Some f \<Rightarrow>
            if \<not> fs_existsSync e f
            then [Effect (Console_error (''File '' @ f @ '' does not exist'')),
                  Effect (Process_exit 1)]
            else [Start_cli g f (opt_input opts) (opt_output opts)])"

text \<open>
  What \<^verbatim>\<open>fs.watch\<close> does when the script calls it (line 37): it throws, as it does on a
  directory that does not exist, or it returns, and the callback is then called on the events
  listed, in order, while the process lives.
\<close>

datatype fs_watch_outcome =
    Fs_watch_throws
  | Fs_watch_delivers "(string \<times> string option) list"

text \<open>
  The whole script (lines 9 to 55). The call of \<^verbatim>\<open>fs.watch\<close> is in no
  \<^verbatim>\<open>try\<close> block, so an exception it throws is uncaught. Without \<^verbatim>\<open>--watch\<close> the
  script does not call \<^verbatim>\<open>fs.watch\<close> and \<open>watcher\<close> plays no part.
\<close>

definition main :: "env \<Rightarrow> cli_args \<Rightarrow> fs_watch_outcome \<Rightarrow> event list" where
  "main e a watcher =
     (let g = install_globals e empty_globals;
          opts = program_opts a
      in if opt_watch opts
         then Effect (Stdout_write (chalk e ''green'' (''Watching for changes'' @ [CHR 0x0A])))
              # Effect (Fs_watch (opt_input opts))
              # (case watcher of
                   Fs_watch_throws \<Rightarrow> [Effect Uncaught_exception]
                 | Fs_watch_delivers fs_events \<Rightarrow>
                     concat (map (\<lambda>(eventType, filename).
                                    watch_callback e g opts eventType filename) fs_events))
         else single_file e g opts)"

subsection \<open>A POSIX instance of the environment\<close>

text \<open>
  The theorems below hold for every environment. To run the script on concrete inputs, this
  instance follows Node's documentation of \<^verbatim>\<open>path.resolve\<close> and
  \<^verbatim>\<open>path.extname\<close> on POSIX, for a working directory \<open>cwd\<close> (an absolute path) and a
  table \<open>files\<close> of the text of the files that exist, by absolute path.
\<close>

fun split_path :: "string \<Rightarrow> string list" where
  "split_path [] = [[]]"
| "split_path (c # cs) =
     (if c = CHR ''/'' then [] # split_path cs
      else case split_path cs of [] \<Rightarrow> [[c]] | s # ss \<Rightarrow> (c # s) # ss)"

text \<open>Empty and \<^verbatim>\<open>.\<close> segments are dropped; \<^verbatim>\<open>..\<close> removes the segment before it.\<close>

fun normalize_segments :: "string list \<Rightarrow> string list \<Rightarrow> string list" where
  "normalize_segments kept [] = rev kept"
| "normalize_segments kept (s # ss) =
     (if s = [] \<or> s = ''.'' then normalize_segments kept ss
      else if s = ''..'' then normalize_segments (tl kept) ss
      else normalize_segments (s # kept) ss)"

fun join_path :: "string list \<Rightarrow> string" where
  "join_path [] = []"
| "join_path (s # ss) = ''/'' @ s @ join_path ss"

text \<open>The arguments from the right, up to the first absolute one; the working directory last.\<close>

fun resolve_from_right :: "string list \<Rightarrow> string" where
  "resolve_from_right [] = []"
| "resolve_from_right (p # ps) =
     (if p = [] then resolve_from_right ps
      else if hd p = CHR ''/'' then p
      else resolve_from_right ps @ ''/'' @ p)"

definition posix_resolve :: "string \<Rightarrow> string list \<Rightarrow> string" where
  "posix_resolve cwd paths =
     (let segs = normalize_segments [] (split_path (resolve_from_right (rev paths @ [cwd])))
      in if segs = [] then ''/'' else join_path segs)"

text \<open>
  The extension of the last segment: from its last dot on, and empty when the segment has no
  dot, starts with its only dot, or is \<^verbatim>\<open>..\<close>.
\<close>

definition posix_extname :: "string \<Rightarrow> string" where
  "posix_extname p =
     (case rev (filter (\<lambda>s. s \<noteq> []) (split_path p)) of
        [] \<Rightarrow> []
      | base # _ \<Rightarrow>
          let ext = rev (takeWhile (\<lambda>c. c \<noteq> CHR ''.'') (rev base));
              stem = take (length base - length ext - 1) base
          in if CHR ''.'' \<notin> set base \<or> stem = [] \<or> base = ''..'' then [] else ''.'' @ ext)"

definition posix_env :: "string \<Rightarrow> (string \<Rightarrow> string option) \<Rightarrow> env" where
  "posix_env cwd files =
     \<lparr>path_resolve = posix_resolve cwd,
      path_extname = posix_extname,
      fs_existsSync = (\<lambda>f. f \<noteq> [] \<and> files (posix_resolve cwd [f]) \<noteq> None),
      fs_readFileSync = (\<lambda>f encoding. if f = [] then None else files (posix_resolve cwd [f])),
      chalk = (\<lambda>color message. message)\<rparr>"

text \<open>A working directory with one shader and one text file, to run the script on.\<close>

definition demo_files :: "string \<Rightarrow> string option" where
  "demo_files =
     [''/home/u/shaders/a.frag'' \<mapsto> ''uniform vec3 color;'',
      ''/home/u/notes.txt'' \<mapsto> ''not a shader'']"

definition demo_env :: env where
  "demo_env = posix_env ''/home/u'' demo_files"

text \<open>A command line with neither \<^verbatim>\<open>--input\<close> nor \<^verbatim>\<open>--output\<close>.\<close>

definition demo_args :: "string option \<Rightarrow> bool \<Rightarrow> cli_args" where
  "demo_args f w = \<lparr>arg_input = None, arg_output = None, arg_file = f, arg_watch = w\<rparr>"

subsection \<open>Reading a run\<close>

text \<open>The arguments of the calls of the core in a run, in order.\<close>

fun calls :: "event list \<Rightarrow> (string \<times> string \<times> string) list" where
  "calls [] = []"
| "calls (Effect x # evs) = calls evs"
| "calls (Start_cli g f i out # evs) = (f, i, out) # calls evs"


section \<open>Include resolution in the core\<close>

text \<open>
  The core engine is compiled into \<^verbatim>\<open>./pkg/glsl_types.cjs\<close>, which the wrapper imports; its
  code is not among the sources. What follows is its include resolver as the specification
  describes it (section 4.4), with the warnings and errors of section 7.
\<close>

text \<open>Modelled from the spec: the non-fatal warnings of section 7, missing from the sources.\<close>

datatype warning = CyclicIncludeWarning string | UnresolvedArrayLengthWarning string

text \<open>
  Modelled from the spec: the errors that resolution can end with, missing from the sources.
  The specification does not say what an include of a file that cannot be read does; the
  model fails the file with \<open>MissingIncludeError\<close>.
\<close>

datatype generation_error = TypeConflictError string | MissingIncludeError string

text \<open>
  Modelled from the spec: what lexing and parsing one file gives (sections 4.1 and 4.2): its declarations, its struct
  definitions by name, the paths of its \<^verbatim>\<open>#include\<close> directives as written, and the
  parser's warnings. Declarations and struct bodies are left abstract.
\<close>

record ('d, 'f) parsed_file =
  pf_declarations :: "'d list"
  pf_structs :: "(string \<times> 'f) list"
  pf_includes :: "string list"
  pf_warnings :: "warning list"

text \<open>
  Modelled from the spec: the merged declarations and struct definitions that resolution
  returns (section 4.4), with the warnings collected on the way (section 7).
\<close>

record ('d, 'f) resolved =
  declarations :: "'d list"
  structs :: "(string \<times> 'f) list"
  warnings :: "warning list"

text \<open>
  Modelled from the spec: the merge of struct definitions, missing from the sources. A struct
  name defined again with the same body is kept once; with a different body it is a conflict,
  a hard error for the whole file.
\<close>

fun merge_structs ::
  "(string \<times> 'f) list \<Rightarrow> (string \<times> 'f) list \<Rightarrow> generation_error + (string \<times> 'f) list" where
  "merge_structs defs [] = Inr defs"
| "merge_structs defs ((name, body) # rest) =
     (case map_of defs name of
        None \<Rightarrow> merge_structs (defs @ [(name, body)]) rest
      | Some body' \<Rightarrow>
          if body' = body then merge_structs defs rest else Inl (TypeConflictError name))"

text \<open>
  Modelled from the spec: the merge of what an earlier file gave with what a later one gives;
  the later declarations and warnings are appended, the struct definitions merged as above.
\<close>

definition merge ::
  "('d, 'f) resolved \<Rightarrow> ('d, 'f) resolved \<Rightarrow> generation_error + ('d, 'f) resolved" where
  "merge r later =
     (case merge_structs (structs r) (structs later) of
        Inl err \<Rightarrow> Inl err
      | Inr defs \<Rightarrow>
          Inr \<lparr>declarations = declarations r @ declarations later,
               structs = defs,
               warnings = warnings r @ warnings later\<rparr>)"

text \<open>
  Modelled from the spec: the merge of the parts of a file in order, failing with the first
  failure of a part or of a merge.
\<close>

fun merge_all ::
  "('d, 'f) resolved \<Rightarrow> (generation_error + ('d, 'f) resolved) list \<Rightarrow>
   generation_error + ('d, 'f) resolved" where
  "merge_all r [] = Inr r"
| "merge_all r (Inl err # parts) = Inl err"
| "merge_all r (Inr part # parts) =
     (case merge r part of Inl err \<Rightarrow> Inl err | Inr r' \<Rightarrow> merge_all r' parts)"

text \<open>Modelled from the spec: what a skipped include contributes, apart from its warning.\<close>

definition no_declarations :: "('d, 'f) resolved" where
  "no_declarations = \<lparr>declarations = [], structs = [], warnings = []\<rparr>"

text \<open>
  Modelled from the spec: \<^verbatim>\<open>resolveIncludes(filePath, inputRoot, visited)\<close>, missing from
  the sources. \<open>store\<close> lists the files that can be read, by canonical path, with what lexing
  and parsing each gives; \<open>canonical inputRoot filePath inc\<close> is the include path \<open>inc\<close>
  resolved relative to the directory of the including file \<open>filePath\<close>, then canonicalized.
  \<open>visited\<close> is the set of canonical paths of the current resolution chain, to which the file
  being resolved is added. An include whose canonical path is in the chain is skipped with a
  cyclic-include warning; any other is resolved in turn, and the results are merged in the
  order of the includes, before the file's own declarations.
\<close>

function (domintros) resolveIncludes ::
  "(string \<Rightarrow> string \<Rightarrow> string \<Rightarrow> string) \<Rightarrow> (string \<times> ('d, 'f) parsed_file) list \<Rightarrow>
   string \<Rightarrow> string \<Rightarrow> string set \<Rightarrow> generation_error + ('d, 'f) resolved" where
  "resolveIncludes canonical store filePath inputRoot visited =
     (case map_of store filePath of
        None \<Rightarrow> Inl (MissingIncludeError filePath)
      | Some parsed \<Rightarrow>
          merge_all no_declarations
            (map (\<lambda>inc.
                    let path = canonical inputRoot filePath inc in
                    if path \<in> insert filePath visited
                    then Inr (no_declarations\<lparr>warnings := [CyclicIncludeWarning path]\<rparr>)
                    else resolveIncludes canonical store path inputRoot (insert filePath visited))
                 (pf_includes parsed)
             @ [Inr \<lparr>declarations = pf_declarations parsed, structs = pf_structs parsed,
                     warnings = pf_warnings parsed\<rparr>]))"
  by pat_completeness auto
termination
proof (relation "measure (\<lambda>(canonical, store, filePath, inputRoot, visited).
          2 * card (fst ` set store - visited) + (if filePath \<in> visited then 1 else 0))",
       goal_cases)
  case 1
  show ?case by simp
next
  case (2 canonical store filePath inputRoot visited parsed inc path)
  from 2 have in_store: "filePath \<in> fst ` set store"
    by (auto dest: map_of_SomeD intro: rev_image_eqI)
  from 2 have fresh: "path \<notin> insert filePath visited" by simp
  show ?case
  proof (cases "filePath \<in> visited")
    case True
    then have "insert filePath visited = visited" by (rule insert_absorb)
    with True fresh show ?thesis by simp
  next
    case False
    have "fst ` set store - insert filePath visited \<subset> fst ` set store - visited"
      using in_store False by auto
    then have "card (fst ` set store - insert filePath visited) < card (fst ` set store - visited)"
      by (intro psubset_card_mono) simp_all
    with False fresh show ?thesis by simp
  qed
qed

text \<open>
  Two files that include each other, the first also itself; include paths are relative to
  the input root here.
\<close>

definition demo_canonical :: "string \<Rightarrow> string \<Rightarrow> string \<Rightarrow> string" where
  "demo_canonical inputRoot filePath inc = inputRoot @ ''/'' @ inc"

definition demo_a :: "(string, string list) parsed_file" where
  "demo_a =
     \<lparr>pf_declarations = [''uniform float t''], pf_structs = [],
      pf_includes = [''b.glsl'', ''a.glsl''], pf_warnings = []\<rparr>"

definition demo_b :: "(string, string list) parsed_file" where
  "demo_b =
     \<lparr>pf_declarations = [''uniform Light l''], pf_structs = [(''Light'', [''vec3 pos''])],
      pf_includes = [''a.glsl''], pf_warnings = []\<rparr>"

definition demo_store :: "(string \<times> (string, string list) parsed_file) list" where
  "demo_store = [(''/s/a.glsl'', demo_a), (''/s/b.glsl'', demo_b)]"

section \<open>Properties of the wrapper\<close>

subsection \<open>Helper facts\<close>

lemma calls_append: "calls (xs @ ys) = calls xs @ calls ys"
  by (induction xs rule: calls.induct) simp_all

lemma calls_concat: "calls (concat xss) = concat (map calls xss)"
  by (induction xss) (simp_all add: calls_append)

lemma watch_callback_Some:
  "name \<noteq> [] \<Longrightarrow>
   watch_callback e g opts eventType (Some name) =
     (if path_extname e (path_resolve e [opt_input opts, name]) \<in> set SHADER_EXTENSIONS
      then [Start_cli g (path_resolve e [opt_input opts, name]) (opt_input opts) (opt_output opts)]
      else [])"
  by (simp add: watch_callback_def Let_def)

lemma watch_callback_falsy:
  "js_not filename \<Longrightarrow> watch_callback e g opts eventType filename = []"
  by (simp add: watch_callback_def)




lemma main_watch:
  "arg_watch a \<Longrightarrow>
   main e a (Fs_watch_delivers evs) =
     Effect (Stdout_write (chalk e ''green'' (''Watching for changes'' @ [CHR 0x0A])))
     # Effect (Fs_watch (opt_input (program_opts a)))
     # concat (map (\<lambda>(eventType, filename).
          watch_callback e (install_globals e empty_globals) (program_opts a) eventType filename)
          evs)"
  by (simp add: main_def Let_def program_opts_def)

lemma main_watch_throws:
  "arg_watch a \<Longrightarrow>
   main e a Fs_watch_throws =
     [Effect (Stdout_write (chalk e ''green'' (''Watching for changes'' @ [CHR 0x0A]))),
      Effect (Fs_watch (opt_input (program_opts a))),
      Effect Uncaught_exception]"
  by (simp add: main_def Let_def program_opts_def)

lemma main_single:
  "\<not> arg_watch a \<Longrightarrow>
   main e a w = single_file e (install_globals e empty_globals) (program_opts a)"
  by (simp add: main_def Let_def program_opts_def)


lemma single_file_cases:
  "single_file e g opts =
     (case opt_file opts of
        None \<Rightarrow>
          [Effect (Console_error ''Please provide a file to process''), Effect (Process_exit 1)]
      | Some f \<Rightarrow>
          if f = []
          then [Effect (Console_error ''Please provide a file to process''),
                Effect (Process_exit 1)]
          else if fs_existsSync e f then [Start_cli g f (opt_input opts) (opt_output opts)]
          else [Effect (Console_error (''File '' @ f @ '' does not exist'')),
                Effect (Process_exit 1)])"
  by (simp add: single_file_def split: option.splits)

lemma Start_cli_globals:
  "Start_cli g f i out \<in> set (main e a w) \<Longrightarrow> g = install_globals e empty_globals"
  by (cases "arg_watch a"; cases w)
     (auto simp add: main_watch main_watch_throws main_single single_file_cases
           watch_callback_def Let_def split: option.splits if_splits)

subsection \<open>Watch mode\<close>

text \<open>
  Claim C1. In watch mode, an event that names a file makes the callback call the core
  exactly once, for the file name resolved against the input directory, when the extension
  of the resolved name is one of \<^verbatim>\<open>.vert .frag .vs .fs .glsl\<close>, and makes it call nothing
  otherwise; and the calls of a whole run are those of the events delivered, one after the
  other (none when \<^verbatim>\<open>fs.watch\<close> throws).
\<close>

theorem watch_invokes_core_iff_shader_extension:
  "(name \<noteq> [] \<longrightarrow>
     calls (watch_callback e g opts eventType (Some name)) =
       (if path_extname e (path_resolve e [opt_input opts, name])
             \<in> {''.vert'', ''.frag'', ''.vs'', ''.fs'', ''.glsl''}
        then [(path_resolve e [opt_input opts, name], opt_input opts, opt_output opts)]
        else []))
   \<and> (arg_watch a \<longrightarrow>
        calls (main e a (Fs_watch_delivers evs)) =
          concat (map (\<lambda>(eventType, filename).
            calls (watch_callback e (install_globals e empty_globals) (program_opts a)
                     eventType filename)) evs)
        \<and> calls (main e a Fs_watch_throws) = [])"
proof (intro conjI impI)
  assume "name \<noteq> []"
  then show "calls (watch_callback e g opts eventType (Some name)) =
       (if path_extname e (path_resolve e [opt_input opts, name])
             \<in> {''.vert'', ''.frag'', ''.vs'', ''.fs'', ''.glsl''}
        then [(path_resolve e [opt_input opts, name], opt_input opts, opt_output opts)]
        else [])"
    by (simp add: watch_callback_Some SHADER_EXTENSIONS_def)
next
  assume "arg_watch a"
  then show "calls (main e a (Fs_watch_delivers evs)) =
          concat (map (\<lambda>(eventType, filename).
            calls (watch_callback e (install_globals e empty_globals) (program_opts a)
                     eventType filename)) evs)"
    by (simp add: main_watch calls_concat comp_def case_prod_unfold)
next
  assume "arg_watch a"
  then show "calls (main e a Fs_watch_throws) = []"
    by (simp add: main_watch_throws)
qed

text \<open>
  Claim C10. An event whose file name is missing makes the callback do nothing, whatever the
  environment (the path functions are not applied); in a run, such an event leaves no trace.
\<close>

theorem watch_callback_missing_filename:
  "watch_callback e g opts eventType None = [] \<and>
   (arg_watch a \<longrightarrow>
      main e a (Fs_watch_delivers (evs @ (eventType, None) # evs')) =
      main e a (Fs_watch_delivers (evs @ evs')))"
  by (simp add: main_watch watch_callback_falsy)



subsection \<open>Single-file mode\<close>

text \<open>
  Claim C2. Without \<^verbatim>\<open>--watch\<close>, the script calls \<^verbatim>\<open>process.exit(1)\<close> exactly when
  \<^verbatim>\<open>--file\<close> is absent or names a file that does not exist; it then has written one message
  to stderr and done nothing else. In every other case the run is one call of the core with
  the given file. (Node's \<^verbatim>\<open>fs.existsSync\<close> is false on the empty path, which is the second
  premise.)
\<close>

theorem single_file_exit_code_1_cases:
  assumes "\<not> arg_watch a" and "\<not> fs_existsSync e []"
  shows "(Effect (Process_exit 1) \<in> set (main e a w)) =
           (arg_file a = None \<or> (\<exists>f. arg_file a = Some f \<and> \<not> fs_existsSync e f))
       \<and> (Effect (Process_exit 1) \<in> set (main e a w) \<longrightarrow>
            (\<exists>msg. main e a w = [Effect (Console_error msg), Effect (Process_exit 1)]))
       \<and> (Effect (Process_exit 1) \<notin> set (main e a w) \<longrightarrow>
            (\<exists>f. arg_file a = Some f \<and>
               main e a w = [Start_cli (install_globals e empty_globals) f
                                 (opt_input (program_opts a)) (opt_output (program_opts a))]))"
proof (cases "arg_file a")
  case None
  with assms show ?thesis
    by (simp add: main_single single_file_cases program_opts_def)
next
  case (Some f)
  with assms show ?thesis
    by (cases "f = []") (auto simp add: main_single single_file_cases program_opts_def)
qed

text \<open>
  Claim C8. Without \<^verbatim>\<open>--watch\<close>, for a file given by \<^verbatim>\<open>--file\<close> that exists the run is
  one call of the core with that file, and it is the same run whatever \<^verbatim>\<open>path.extname\<close>
  answers: the list of shader extensions plays no part.
\<close>

theorem single_file_no_extension_filter:
  assumes "\<not> arg_watch a" and "arg_file a = Some f" and "f \<noteq> []" and "fs_existsSync e f"
  shows "main e a w = [Start_cli (install_globals e empty_globals) f
                           (opt_input (program_opts a)) (opt_output (program_opts a))]
       \<and> main (e\<lparr>path_extname := ext\<rparr>) a w = main e a w"
  using assms
  by (simp add: main_single single_file_cases program_opts_def install_globals_def)

subsection \<open>Both modes\<close>

text \<open>
  Claim C5. Every call of the core in a run has the input directory as its second argument
  and the output directory as its third; its first argument is the file: in watch mode the
  name of an event that the watcher delivered, resolved against the input directory,
  otherwise the file given by \<^verbatim>\<open>--file\<close>.
\<close>

theorem start_cli_argument_order:
  assumes "(f, i, out) \<in> set (calls (main e a w))"
  shows "i = opt_input (program_opts a) \<and> out = opt_output (program_opts a) \<and>
         (if arg_watch a
          then \<exists>evs eventType name. w = Fs_watch_delivers evs \<and>
                 (eventType, Some name) \<in> set evs \<and> f = path_resolve e [i, name]
          else arg_file a = Some f)"
proof (cases "arg_watch a")
  case True
  from assms True obtain evs where w: "w = Fs_watch_delivers evs"
    by (cases w) (simp_all add: main_watch_throws)
  from assms True w obtain eventType filename where
    ev: "(eventType, filename) \<in> set evs" and
    c: "(f, i, out) \<in> set (calls (watch_callback e (install_globals e empty_globals)
                                   (program_opts a) eventType filename))"
    by (auto simp add: main_watch calls_concat)
  from c obtain name where "filename = Some name"
    and "f = path_resolve e [opt_input (program_opts a), name]"
    and "i = opt_input (program_opts a)" and "out = opt_output (program_opts a)"
    by (cases filename) (auto simp add: watch_callback_def Let_def split: if_splits)
  with ev True w show ?thesis by auto
next
  case False
  with assms show ?thesis
    by (auto simp add: main_single single_file_cases program_opts_def
             split: option.splits if_splits)
qed

text \<open>
  Claim C6. Without \<^verbatim>\<open>--input\<close> the input directory is \<^verbatim>\<open>./shaders\<close>, without
  \<^verbatim>\<open>--output\<close> the output directory is \<^verbatim>\<open>./output\<close>, and without \<^verbatim>\<open>--watch\<close> watch
  mode is off.
\<close>

theorem program_opts_defaults:
  "(arg_input a = None \<longrightarrow> opt_input (program_opts a) = ''./shaders'') \<and>
   (arg_output a = None \<longrightarrow> opt_output (program_opts a) = ''./output'') \<and>
   (\<not> arg_watch a \<longrightarrow> \<not> opt_watch (program_opts a))"
  by (simp add: program_opts_def)

text \<open>
  Claim C7. At every call of the core, in either mode, the global object holds the three
  capabilities: \<^verbatim>\<open>read_file\<close> gives what \<^verbatim>\<open>fs.readFileSync\<close> reads from the file with the
  encoding \<^verbatim>\<open>utf8\<close>, \<^verbatim>\<open>canonicalize\<close> gives \<^verbatim>\<open>path.resolve\<close> of the path, and
  \<^verbatim>\<open>file_exists\<close> gives the boolean \<^verbatim>\<open>fs.existsSync\<close> answers.
\<close>

theorem capabilities_installed_before_start_cli:
  assumes "Start_cli g f i out \<in> set (main e a w)"
  shows "read_file g = Some (\<lambda>p. fs_readFileSync e p ''utf8'') \<and>
         canonicalize g = Some (\<lambda>p. path_resolve e [p]) \<and>
         file_exists g = Some (\<lambda>p. fs_existsSync e p)"
  using Start_cli_globals [OF assms] by (simp add: install_globals_def)

subsection \<open>The script on the demo directory\<close>

lemma demo_opts:
  "opt_input (program_opts (demo_args f w)) = ''./shaders''"
  "opt_output (program_opts (demo_args f w)) = ''./output''"
  "opt_file (program_opts (demo_args f w)) = f"
  "arg_watch (demo_args f w) = w"
  "arg_file (demo_args f w) = f"
  "arg_input (demo_args f w) = None"
  "arg_output (demo_args f w) = None"
  by (simp_all add: program_opts_def demo_args_def)

lemma demo_resolve:
  "path_resolve demo_env [''./shaders'', ''a.frag''] = ''/home/u/shaders/a.frag''"
  "path_resolve demo_env [''./shaders'', ''sub/b.glsl''] = ''/home/u/shaders/sub/b.glsl''"
  "path_resolve demo_env [''./shaders'', ''README.md''] = ''/home/u/shaders/README.md''"
  by (simp_all add: demo_env_def posix_env_def posix_resolve_def)

lemma demo_extname:
  "path_extname demo_env ''/home/u/shaders/a.frag'' = ''.frag''"
  "path_extname demo_env ''/home/u/shaders/sub/b.glsl'' = ''.glsl''"
  "path_extname demo_env ''/home/u/shaders/README.md'' = ''.md''"
  by (simp_all add: demo_env_def posix_env_def posix_extname_def)

lemma demo_exists:
  "fs_existsSync demo_env ''notes.txt''"
  "\<not> fs_existsSync demo_env ''missing.frag''"
  "\<not> fs_existsSync demo_env []"
  by (simp_all add: demo_env_def posix_env_def posix_resolve_def demo_files_def)

theorem watch_invokes_core_iff_shader_extension_witness:
  "calls (watch_callback demo_env empty_globals (program_opts (demo_args None True)) ''change'' (Some ''a.frag''))
     = [(''/home/u/shaders/a.frag'', ''./shaders'', ''./output'')]
   \<and> calls (watch_callback demo_env empty_globals (program_opts (demo_args None True)) ''change'' (Some ''README.md'')) = []
   \<and> calls (main demo_env (demo_args None True)
        (Fs_watch_delivers
          [(''change'', Some ''a.frag''), (''rename'', None), (''change'', Some ''README.md''),
           (''rename'', Some ''sub/b.glsl'')]))
     = [(''/home/u/shaders/a.frag'', ''./shaders'', ''./output''),
        (''/home/u/shaders/sub/b.glsl'', ''./shaders'', ''./output'')]"
proof -
  have opts: "opt_input (program_opts (demo_args None True)) = ''./shaders''"
    "opt_output (program_opts (demo_args None True)) = ''./output''"
    "arg_watch (demo_args None True)"
    by (simp_all add: program_opts_def demo_args_def)
  note t = watch_invokes_core_iff_shader_extension
  from t [of "''a.frag''" demo_env empty_globals "program_opts (demo_args None True)" "''change''"]
  have 1: "calls (watch_callback demo_env empty_globals (program_opts (demo_args None True)) ''change'' (Some ''a.frag''))
     = [(''/home/u/shaders/a.frag'', ''./shaders'', ''./output'')]"
    by (simp add: opts demo_resolve demo_extname)
  from t [of "''README.md''" demo_env empty_globals "program_opts (demo_args None True)" "''change''"]
  have 2: "calls (watch_callback demo_env empty_globals (program_opts (demo_args None True)) ''change'' (Some ''README.md'')) = []"
    by (simp add: opts demo_resolve demo_extname)
  from t [of "''sub/b.glsl''" demo_env "install_globals demo_env empty_globals" "program_opts (demo_args None True)" "''rename''"]
  have 3: "calls (watch_callback demo_env (install_globals demo_env empty_globals) (program_opts (demo_args None True)) ''rename'' (Some ''sub/b.glsl''))
     = [(''/home/u/shaders/sub/b.glsl'', ''./shaders'', ''./output'')]"
    by (simp add: opts demo_resolve demo_extname)
  from t [of "''a.frag''" demo_env "install_globals demo_env empty_globals" "program_opts (demo_args None True)" "''change''"]
  have 4: "calls (watch_callback demo_env (install_globals demo_env empty_globals) (program_opts (demo_args None True)) ''change'' (Some ''a.frag''))
     = [(''/home/u/shaders/a.frag'', ''./shaders'', ''./output'')]"
    by (simp add: opts demo_resolve demo_extname)
  from t [of "''README.md''" demo_env "install_globals demo_env empty_globals" "program_opts (demo_args None True)" "''change''"]
  have 5: "calls (watch_callback demo_env (install_globals demo_env empty_globals) (program_opts (demo_args None True)) ''change'' (Some ''README.md'')) = []"
    by (simp add: opts demo_resolve demo_extname)
  have 6: "calls (watch_callback demo_env (install_globals demo_env empty_globals) (program_opts (demo_args None True)) ''rename'' None) = []"
    by (simp add: watch_callback_def)
  from t [where a = "demo_args None True" and e = demo_env]
  have "calls (main demo_env (demo_args None True)
        (Fs_watch_delivers
          [(''change'', Some ''a.frag''), (''rename'', None), (''change'', Some ''README.md''),
           (''rename'', Some ''sub/b.glsl'')]))
     = [(''/home/u/shaders/a.frag'', ''./shaders'', ''./output''),
        (''/home/u/shaders/sub/b.glsl'', ''./shaders'', ''./output'')]"
    by (simp add: opts 3 4 5 6)
  with 1 2 show ?thesis by simp
qed

theorem watch_callback_missing_filename_witness:
  "watch_callback demo_env (install_globals demo_env empty_globals)
     (program_opts (demo_args None True)) ''rename'' None = [] \<and>
   arg_watch (demo_args None True) \<and>
   main demo_env (demo_args None True) (Fs_watch_delivers [(''change'', Some ''a.frag''), (''rename'', None)]) =
   main demo_env (demo_args None True) (Fs_watch_delivers [(''change'', Some ''a.frag'')])"
  using watch_callback_missing_filename
    [of demo_env "install_globals demo_env empty_globals" "program_opts (demo_args None True)"
        "''rename''" "demo_args None True" "[(''change'', Some ''a.frag'')]" "[]"]
  by (simp add: demo_opts)


theorem single_file_exit_code_1_cases_witness:
  "\<not> arg_watch (demo_args None False) \<and> \<not> fs_existsSync demo_env [] \<and>
   Effect (Process_exit 1) \<in> set (main demo_env (demo_args None False) (Fs_watch_delivers [])) \<and>
   Effect (Process_exit 1) \<in> set (main demo_env (demo_args (Some ''missing.frag'') False) (Fs_watch_delivers [])) \<and>
   main demo_env (demo_args (Some ''missing.frag'') False) (Fs_watch_delivers []) =
     [Effect (Console_error ''File missing.frag does not exist''), Effect (Process_exit 1)] \<and>
   main demo_env (demo_args (Some ''notes.txt'') False) (Fs_watch_delivers []) =
     [Start_cli (install_globals demo_env empty_globals) ''notes.txt'' ''./shaders'' ''./output'']"
proof -
  note t = single_file_exit_code_1_cases [where e = demo_env and w = "Fs_watch_delivers []"]
  have w: "\<not> arg_watch (demo_args f False)" for f by (simp add: demo_opts)
  from t [OF w demo_exists(3), of None]
  have 1: "Effect (Process_exit 1) \<in> set (main demo_env (demo_args None False) (Fs_watch_delivers []))"
    by (simp add: demo_opts)
  from t [OF w demo_exists(3), of "Some ''missing.frag''"]
  have 2: "Effect (Process_exit 1) \<in> set (main demo_env (demo_args (Some ''missing.frag'') False) (Fs_watch_delivers []))"
    by (simp add: demo_opts demo_exists)
  from t [OF w demo_exists(3), of "Some ''notes.txt''"]
  have 3: "main demo_env (demo_args (Some ''notes.txt'') False) (Fs_watch_delivers []) =
     [Start_cli (install_globals demo_env empty_globals) ''notes.txt'' ''./shaders'' ''./output'']"
    by (simp add: demo_opts demo_exists)
  have 4: "main demo_env (demo_args (Some ''missing.frag'') False) (Fs_watch_delivers []) =
     [Effect (Console_error ''File missing.frag does not exist''), Effect (Process_exit 1)]"
    by (simp add: main_single single_file_cases demo_opts demo_exists)
  from 1 2 3 4 w demo_exists(3) show ?thesis by simp
qed

theorem single_file_no_extension_filter_witness:
  "\<not> arg_watch (demo_args (Some ''notes.txt'') False) \<and>
   fs_existsSync demo_env ''notes.txt'' \<and>
   path_extname demo_env ''notes.txt'' = ''.txt'' \<and>
   ''.txt'' \<notin> set SHADER_EXTENSIONS \<and>
   main demo_env (demo_args (Some ''notes.txt'') False) (Fs_watch_delivers []) =
     [Start_cli (install_globals demo_env empty_globals) ''notes.txt'' ''./shaders'' ''./output'']"
proof -
  have 1: "\<not> arg_watch (demo_args (Some ''notes.txt'') False)"
    and 2: "arg_file (demo_args (Some ''notes.txt'') False) = Some ''notes.txt''"
    and 3: "''notes.txt'' \<noteq> []"
    by (simp_all add: demo_opts)
  have 4: "path_extname demo_env ''notes.txt'' = ''.txt''"
    by (simp add: demo_env_def posix_env_def posix_extname_def)
  from single_file_no_extension_filter [OF 1 2 3 demo_exists(1), of "Fs_watch_delivers []"] 1 4 demo_exists(1)
  show ?thesis by (simp add: demo_opts SHADER_EXTENSIONS_def)
qed

theorem start_cli_argument_order_witness:
  "(''/home/u/shaders/a.frag'', ''./shaders'', ''./output'')
     \<in> set (calls (main demo_env (demo_args None True) (Fs_watch_delivers [(''change'', Some ''a.frag'')]))) \<and>
   ''./shaders'' = opt_input (program_opts (demo_args None True)) \<and>
   ''./output'' = opt_output (program_opts (demo_args None True)) \<and>
   ''/home/u/shaders/a.frag'' = path_resolve demo_env [''./shaders'', ''a.frag''] \<and>
   (''notes.txt'', ''./shaders'', ''./output'')
     \<in> set (calls (main demo_env (demo_args (Some ''notes.txt'') False) (Fs_watch_delivers []))) \<and>
   arg_file (demo_args (Some ''notes.txt'') False) = Some ''notes.txt''"
proof -
  have 1: "(''/home/u/shaders/a.frag'', ''./shaders'', ''./output'')
     \<in> set (calls (main demo_env (demo_args None True) (Fs_watch_delivers [(''change'', Some ''a.frag'')])))"
    by (simp add: main_watch demo_opts watch_callback_Some demo_resolve demo_extname
          SHADER_EXTENSIONS_def)
  have 2: "(''notes.txt'', ''./shaders'', ''./output'')
     \<in> set (calls (main demo_env (demo_args (Some ''notes.txt'') False) (Fs_watch_delivers [])))"
    by (simp add: main_single single_file_cases demo_opts demo_exists)
  note a = start_cli_argument_order [OF 1]
  note b = start_cli_argument_order [OF 2]
  from a have 3: "''./shaders'' = opt_input (program_opts (demo_args None True))"
    and 4: "''./output'' = opt_output (program_opts (demo_args None True))"
    by blast+
  from a have "\<exists>evs eventType name.
      Fs_watch_delivers [(''change'', Some ''a.frag'')] = Fs_watch_delivers evs \<and>
      (eventType, Some name) \<in> set evs \<and>
      ''/home/u/shaders/a.frag'' = path_resolve demo_env [''./shaders'', name]"
    by (simp only: demo_opts if_True)
  then have 5: "''/home/u/shaders/a.frag'' = path_resolve demo_env [''./shaders'', ''a.frag'']"
    by auto
  from b have 6: "arg_file (demo_args (Some ''notes.txt'') False) = Some ''notes.txt''"
    by (simp only: demo_opts if_False)
  from 1 2 3 4 5 6 show ?thesis by blast
qed

theorem capabilities_installed_before_start_cli_witness:
  "Start_cli (install_globals demo_env empty_globals) ''notes.txt'' ''./shaders'' ''./output''
     \<in> set (main demo_env (demo_args (Some ''notes.txt'') False) (Fs_watch_delivers [])) \<and>
   map_option (\<lambda>read. read ''notes.txt'') (read_file (install_globals demo_env empty_globals))
     = Some (Some ''not a shader'') \<and>
   map_option (\<lambda>canon. canon ''shaders/../notes.txt'')
     (canonicalize (install_globals demo_env empty_globals)) = Some ''/home/u/notes.txt'' \<and>
   map_option (\<lambda>exists. exists ''missing.frag'')
     (file_exists (install_globals demo_env empty_globals)) = Some False"
proof -
  have 1: "Start_cli (install_globals demo_env empty_globals) ''notes.txt'' ''./shaders'' ''./output''
     \<in> set (main demo_env (demo_args (Some ''notes.txt'') False) (Fs_watch_delivers []))"
    by (simp add: main_single single_file_cases demo_opts demo_exists)
  have 2: "fs_readFileSync demo_env ''notes.txt'' ''utf8'' = Some ''not a shader''"
    "path_resolve demo_env [''shaders/../notes.txt''] = ''/home/u/notes.txt''"
    by (simp_all add: demo_env_def posix_env_def posix_resolve_def demo_files_def)
  from capabilities_installed_before_start_cli [OF 1] 1 show ?thesis
    by (simp add: 2 demo_exists)
qed

theorem program_opts_defaults_witness:
  "arg_input (demo_args None False) = None \<and>
   arg_output (demo_args None False) = None \<and>
   \<not> arg_watch (demo_args None False) \<and>
   opt_input (program_opts (demo_args None False)) = ''./shaders'' \<and>
   opt_output (program_opts (demo_args None False)) = ''./output'' \<and>
   \<not> opt_watch (program_opts (demo_args None False))"
  using program_opts_defaults [of "demo_args None False"] by (simp add: demo_args_def)

section \<open>Properties of include resolution\<close>

lemma merge_warnings:
  "merge r part = Inr r' \<Longrightarrow> warnings r' = warnings r @ warnings part"
  by (auto simp add: merge_def split: sum.splits)

lemma merge_all_warnings:
  "merge_all r parts = Inr r' \<Longrightarrow>
   set (warnings r) \<subseteq> set (warnings r') \<and>
   (\<forall>part. Inr part \<in> set parts \<longrightarrow> set (warnings part) \<subseteq> set (warnings r'))"
proof (induction r parts rule: merge_all.induct)
  case (1 r)
  then show ?case by simp
next
  case (2 r err parts)
  then show ?case by simp
next
  case (3 r part parts)
  from "3.prems" obtain m where m: "merge r part = Inr m" and rest: "merge_all m parts = Inr r'"
    by (auto split: sum.splits)
  from "3.IH" [OF m rest] merge_warnings [OF m] show ?case by auto
qed

lemma resolveIncludes_total:
  "resolveIncludes_dom (canonical, store, filePath, inputRoot, visited)"
  by (induction canonical store filePath inputRoot visited rule: resolveIncludes.induct)
     (rule resolveIncludes.domintros, simp)

lemma resolveIncludes_calls_fresh:
  "resolveIncludes_rel (canonical', store', path, inputRoot', chain)
     (canonical, store, filePath, inputRoot, visited)
   \<Longrightarrow> path \<notin> chain \<and> chain = insert filePath visited"
  by (erule resolveIncludes_rel.cases) simp

lemma cyclic_include_warning:
  assumes "map_of store filePath = Some parsed"
    and "inc \<in> set (pf_includes parsed)"
    and "canonical inputRoot filePath inc \<in> insert filePath visited"
    and "resolveIncludes canonical store filePath inputRoot visited = Inr r"
  shows "CyclicIncludeWarning (canonical inputRoot filePath inc) \<in> set (warnings r)"
proof -
  let ?skip = "Inr (no_declarations\<lparr>warnings :=
                 [CyclicIncludeWarning (canonical inputRoot filePath inc)]\<rparr>)
               :: generation_error + ('a, 'b) resolved"
  from assms(1,4) obtain parts where
    whole: "merge_all no_declarations parts = Inr r" and
    parts: "parts = map (\<lambda>inc.
                    let path = canonical inputRoot filePath inc in
                    if path \<in> insert filePath visited
                    then Inr (no_declarations\<lparr>warnings := [CyclicIncludeWarning path]\<rparr>)
                    else resolveIncludes canonical store path inputRoot (insert filePath visited))
                 (pf_includes parsed)
             @ [Inr \<lparr>declarations = pf_declarations parsed, structs = pf_structs parsed,
                     warnings = pf_warnings parsed\<rparr>]"
    by simp
  from assms(2,3) have "?skip \<in> set parts"
    unfolding parts by (auto simp add: Let_def image_iff intro!: bexI [of _ inc])
  with merge_all_warnings [OF whole] show ?thesis by auto
qed

text \<open>
  Claim C4. Include resolution terminates on every input: \<open>resolveIncludes_dom x\<close> says that
  the recursion started at \<open>x\<close> is well-founded, that is, its tree of calls is finite
  (\<open>resolveIncludes_rel y x\<close> says that resolving \<open>x\<close> calls the resolver on \<open>y\<close>). A call is
  made only for a path that is not yet in the chain, which is the visited set with the
  including file added; and an include whose canonical path is in the chain leaves a
  cyclic-include warning in every result.
\<close>

theorem include_resolution_terminates:
  "resolveIncludes_dom (canonical, store, filePath, inputRoot, visited)
   \<and> (resolveIncludes_rel (canonical', store', path, inputRoot', chain)
          (canonical, store, filePath, inputRoot, visited)
        \<longrightarrow> path \<notin> chain \<and> chain = insert filePath visited)
   \<and> (map_of store filePath = Some parsed \<and> inc \<in> set (pf_includes parsed) \<and>
        canonical inputRoot filePath inc \<in> insert filePath visited \<and>
        resolveIncludes canonical store filePath inputRoot visited = Inr r
        \<longrightarrow> CyclicIncludeWarning (canonical inputRoot filePath inc) \<in> set (warnings r))"
  using resolveIncludes_total [of canonical store filePath inputRoot visited]
    resolveIncludes_calls_fresh [of canonical' store' path inputRoot' chain
      canonical store filePath inputRoot visited]
    cyclic_include_warning [of store filePath parsed inc canonical inputRoot visited r]
  by blast

lemma demo_resolveIncludes:
  "resolveIncludes demo_canonical demo_store ''/s/a.glsl'' ''/s'' {} =
     Inr \<lparr>declarations = [''uniform Light l'', ''uniform float t''],
          structs = [(''Light'', [''vec3 pos''])],
          warnings = [CyclicIncludeWarning ''/s/a.glsl'', CyclicIncludeWarning ''/s/a.glsl'']\<rparr>"
  by (simp add: demo_store_def demo_a_def demo_b_def demo_canonical_def no_declarations_def
        merge_def)

lemma demo_call:
  "resolveIncludes_rel (demo_canonical, demo_store, ''/s/b.glsl'', ''/s'', {''/s/a.glsl''})
     (demo_canonical, demo_store, ''/s/a.glsl'', ''/s'', {})"
proof (rule resolveIncludes_rel.intros)
  show "map_of demo_store ''/s/a.glsl'' = Some demo_a"
    by (simp add: demo_store_def)
  show "''b.glsl'' \<in> set (pf_includes demo_a)"
    by (simp add: demo_a_def)
  show "''/s/b.glsl'' = demo_canonical ''/s'' ''/s/a.glsl'' ''b.glsl''"
    by (simp add: demo_canonical_def)
  show "''/s/b.glsl'' \<notin> {''/s/a.glsl''}"
    by simp
qed

theorem include_resolution_terminates_witness:
  "resolveIncludes_dom (demo_canonical, demo_store, ''/s/a.glsl'', ''/s'', {})
   \<and> resolveIncludes_rel (demo_canonical, demo_store, ''/s/b.glsl'', ''/s'', {''/s/a.glsl''})
         (demo_canonical, demo_store, ''/s/a.glsl'', ''/s'', {})
   \<and> ''/s/b.glsl'' \<notin> {''/s/a.glsl''}
   \<and> resolveIncludes demo_canonical demo_store ''/s/a.glsl'' ''/s'' {} =
       Inr \<lparr>declarations = [''uniform Light l'', ''uniform float t''],
            structs = [(''Light'', [''vec3 pos''])],
            warnings = [CyclicIncludeWarning ''/s/a.glsl'', CyclicIncludeWarning ''/s/a.glsl'']\<rparr>
   \<and> map_of demo_store ''/s/a.glsl'' = Some demo_a
   \<and> ''a.glsl'' \<in> set (pf_includes demo_a)
   \<and> demo_canonical ''/s'' ''/s/a.glsl'' ''a.glsl'' \<in> insert ''/s/a.glsl'' {}
   \<and> CyclicIncludeWarning ''/s/a.glsl''
         \<in> set (warnings \<lparr>declarations = [''uniform Light l'', ''uniform float t''],
            structs = [(''Light'', [''vec3 pos''])],
            warnings = [CyclicIncludeWarning ''/s/a.glsl'', CyclicIncludeWarning ''/s/a.glsl'']\<rparr>)"
proof -
  note t = include_resolution_terminates
    [where canonical = demo_canonical and store = demo_store and filePath = "''/s/a.glsl''"
       and inputRoot = "''/s''" and visited = "{}" and inc = "''a.glsl''"
       and parsed = demo_a]
  have 1: "map_of demo_store ''/s/a.glsl'' = Some demo_a"
    and 2: "''a.glsl'' \<in> set (pf_includes demo_a)"
    and 3: "demo_canonical ''/s'' ''/s/a.glsl'' ''a.glsl'' \<in> insert ''/s/a.glsl'' {}"
    and 4: "demo_canonical ''/s'' ''/s/a.glsl'' ''a.glsl'' = ''/s/a.glsl''"
    by (simp_all add: demo_store_def demo_a_def demo_canonical_def)
  from t have d: "resolveIncludes_dom (demo_canonical, demo_store, ''/s/a.glsl'', ''/s'', {})"
    by blast
  from t demo_call have f: "''/s/b.glsl'' \<notin> {''/s/a.glsl''}"
    by blast
  from t 1 2 3 demo_resolveIncludes
  have "CyclicIncludeWarning (demo_canonical ''/s'' ''/s/a.glsl'' ''a.glsl'')
         \<in> set (warnings \<lparr>declarations = [''uniform Light l'', ''uniform float t''],
            structs = [(''Light'', [''vec3 pos''])],
            warnings = [CyclicIncludeWarning ''/s/a.glsl'', CyclicIncludeWarning ''/s/a.glsl'']\<rparr>)"
    by blast
  with d f 1 2 3 4 demo_call demo_resolveIncludes show ?thesis by (simp only: simp_thms)
qed

end
